theory Spec2Isabelle
  imports Complex_Main "HOL-Library.Word"
begin

section \<open>Swarm agent: data model\<close>

text \<open>
  A shallow embedding of \<^verbatim>\<open>agent.py\<close> (class \<^verbatim>\<open>SwarmAgent\<close>).
  Python integers are \<open>int\<close>, byte strings are lists of 8-bit words, dictionaries
  whose iteration order is observable are association lists, the others are maps.

  The floats of positions and utilities are values of an arbitrary type \<open>'f\<close>, and
  the float operations the code applies to them are the fields of a record
  \<open>'f float_ops\<close> that every function takes as its first argument: arithmetic,
  comparison, literals, and the conversion to and from the four-byte big-endian
  binary32 image of \<^verbatim>\<open>struct\<close> format \<^verbatim>\<open>f\<close>. Nothing is assumed about these
  operations, so whatever binary64 does on rounding, overflow, infinities and NaN is
  one instance; an operation that raises in Python returns an error here.

  Clock readings and the election delay are real numbers.
  Leading underscores of the Python method names are dropped.
\<close>

type_synonym byte = "8 word"

datatype error = StructError | OverflowError | ZeroDivisionError | ValueError

text \<open>
  \<open>f_lit x\<close> is the float that the literal with decimal value \<open>x\<close> denotes;
  \<open>f_pow2 x\<close> is \<^verbatim>\<open>x ** 2\<close>, which raises \<^verbatim>\<open>OverflowError\<close>; \<open>f_sqrt\<close> is
  \<^verbatim>\<open>math.sqrt\<close>, which raises \<^verbatim>\<open>ValueError\<close>; \<open>f_div\<close> is \<^verbatim>\<open>/\<close>, which raises
  \<^verbatim>\<open>ZeroDivisionError\<close>; \<open>f_gt\<close>, \<open>f_lt\<close> and \<open>f_le\<close> are the comparisons \<^verbatim>\<open>>\<close>, \<^verbatim>\<open><\<close> and
  \<^verbatim>\<open><=\<close>; \<open>f_of_int\<close> is the conversion of an integer operand of a float
  operation, which raises \<^verbatim>\<open>OverflowError\<close>; \<open>f32_pack\<close> is
  \<^verbatim>\<open>struct.pack('!f', x)\<close>, which raises \<^verbatim>\<open>OverflowError\<close>, and \<open>f32_unpack\<close>
  is \<^verbatim>\<open>struct.unpack('!f', b)\<close> of four bytes.
\<close>

record 'f float_ops =
  f_lit :: "real \<Rightarrow> 'f"
  f_add :: "'f \<Rightarrow> 'f \<Rightarrow> 'f"
  f_sub :: "'f \<Rightarrow> 'f \<Rightarrow> 'f"
  f_mul :: "'f \<Rightarrow> 'f \<Rightarrow> 'f"
  f_div :: "'f \<Rightarrow> 'f \<Rightarrow> error + 'f"
  f_pow2 :: "'f \<Rightarrow> error + 'f"
  f_sqrt :: "'f \<Rightarrow> error + 'f"
  f_gt :: "'f \<Rightarrow> 'f \<Rightarrow> bool"
  f_lt :: "'f \<Rightarrow> 'f \<Rightarrow> bool"
  f_le :: "'f \<Rightarrow> 'f \<Rightarrow> bool"
  f_of_int :: "int \<Rightarrow> error + 'f"
  f32_pack :: "'f \<Rightarrow> error + byte list"
  f32_unpack :: "byte list \<Rightarrow> 'f"

datatype MsgType = HEARTBEAT | ELECTION_ACCLAIM | COORDINATOR | TASK_CLAIM | TASK_CONFLICT

fun msg_code :: "MsgType \<Rightarrow> int" where
  "msg_code HEARTBEAT = 1"
| "msg_code ELECTION_ACCLAIM = 2"
| "msg_code COORDINATOR = 3"
| "msg_code TASK_CLAIM = 4"
| "msg_code TASK_CONFLICT = 5"

datatype AgentState = FOLLOWER | ELECTION_WAIT | LEADER

record 'f task =
  status :: string
  pos :: "'f \<times> 'f"
  required_cap :: "string option"

record 'f claim =
  winner :: int
  utility :: 'f

text \<open>
  The fields of \<^verbatim>\<open>SwarmAgent\<close>. \<open>obstacles\<close> and \<open>neighbors\<close> are the two entries
  of the \<^verbatim>\<open>sensors\<close> dictionary. The method \<^verbatim>\<open>_send_msg\<close> builds a packet and
  hands it to a transport that the source leaves commented out; \<open>sent\<close> records, in
  order, every packet built there.
\<close>

record 'f SwarmAgent =
  agent_id :: int
  total_agents :: int
  state :: AgentState
  leader_id :: "int option"
  leader_pos :: "('f \<times> 'f) option"
  last_heartbeat_time :: real
  tick :: int
  election_wait_start :: real
  election_delay :: real
  tasks :: "(int \<times> 'f task) list"
  task_claims :: "int \<rightharpoonup> 'f claim"
  position :: "'f \<times> 'f"
  velocity :: "'f \<times> 'f"
  max_speed :: 'f
  obstacles :: "('f \<times> 'f \<times> 'f) list"
  neighbors :: "(int \<times> 'f \<times> 'f) list"
  target :: "('f \<times> 'f) option"
  capabilities :: "string list"
  sent :: "byte list list"

text \<open>
  A method either returns, leaving the object in a new state (\<open>Inr\<close>), or raises,
  leaving the object as it was mutated up to the raise (\<open>Inl\<close>).
\<close>

type_synonym 'f result = "(error \<times> 'f SwarmAgent) + 'f SwarmAgent"

definition state_after :: "'f result \<Rightarrow> 'f SwarmAgent" where
  "state_after r = (case r of Inl (e, s) \<Rightarrow> s | Inr s \<Rightarrow> s)"

section \<open>The \<^verbatim>\<open>struct\<close> formats used by the agent\<close>

definition pack_B :: "int \<Rightarrow> error + byte list" where
  "pack_B n = (if 0 \<le> n \<and> n \<le> 255 then Inr [word_of_int n] else Inl StructError)"

text \<open>The four bytes of an unsigned 32-bit integer, most significant first.\<close>

definition be32 :: "int \<Rightarrow> byte list" where
  "be32 n = [word_of_int (n div 2 ^ 24), word_of_int (n div 2 ^ 16),
             word_of_int (n div 2 ^ 8), word_of_int n]"

definition pack_I :: "int \<Rightarrow> error + byte list" where
  "pack_I n = (if 0 \<le> n \<and> n < 2 ^ 32 then Inr (be32 n) else Inl StructError)"

definition unpack_I :: "byte list \<Rightarrow> int" where
  "unpack_I bs = foldl (\<lambda>a b. a * 256 + uint b) 0 bs"

definition struct_pack_BBI :: "int \<Rightarrow> int \<Rightarrow> int \<Rightarrow> error + byte list" where
  "struct_pack_BBI a b c =
     (case pack_B a of
        Inl e \<Rightarrow> Inl e
      | Inr x \<Rightarrow>
          (case pack_B b of
             Inl e \<Rightarrow> Inl e
           | Inr y \<Rightarrow> (case pack_I c of Inl e \<Rightarrow> Inl e | Inr z \<Rightarrow> Inr (x @ y @ z))))"

definition struct_unpack_BBI :: "byte list \<Rightarrow> error + int \<times> int \<times> int" where
  "struct_unpack_BBI bs =
     (if length bs = 6
      then Inr (uint (bs ! 0), uint (bs ! 1), unpack_I (drop 2 bs))
      else Inl StructError)"

definition struct_pack_ff :: "'f float_ops \<Rightarrow> 'f \<Rightarrow> 'f \<Rightarrow> error + byte list" where
  "struct_pack_ff fc x y =
     (case f32_pack fc x of
        Inl e \<Rightarrow> Inl e
      | Inr a \<Rightarrow> (case f32_pack fc y of Inl e \<Rightarrow> Inl e | Inr b \<Rightarrow> Inr (a @ b)))"

definition struct_unpack_ff :: "'f float_ops \<Rightarrow> byte list \<Rightarrow> error + 'f \<times> 'f" where
  "struct_unpack_ff fc bs =
     (if length bs = 8
      then Inr (f32_unpack fc (take 4 bs), f32_unpack fc (drop 4 bs))
      else Inl StructError)"

definition struct_pack_If :: "'f float_ops \<Rightarrow> int \<Rightarrow> 'f \<Rightarrow> error + byte list" where
  "struct_pack_If fc n x =
     (case pack_I n of
        Inl e \<Rightarrow> Inl e
      | Inr a \<Rightarrow> (case f32_pack fc x of Inl e \<Rightarrow> Inl e | Inr b \<Rightarrow> Inr (a @ b)))"

definition struct_unpack_If :: "'f float_ops \<Rightarrow> byte list \<Rightarrow> error + int \<times> 'f" where
  "struct_unpack_If fc bs =
     (if length bs = 8
      then Inr (unpack_I (take 4 bs), f32_unpack fc (drop 4 bs))
      else Inl StructError)"

definition struct_pack_IB :: "int \<Rightarrow> int \<Rightarrow> error + byte list" where
  "struct_pack_IB n m =
     (case pack_I n of
        Inl e \<Rightarrow> Inl e
      | Inr x \<Rightarrow> (case pack_B m of Inl e \<Rightarrow> Inl e | Inr y \<Rightarrow> Inr (x @ y)))"

definition struct_unpack_IB :: "byte list \<Rightarrow> error + int \<times> int" where
  "struct_unpack_IB bs =
     (if length bs = 5
      then Inr (unpack_I (take 4 bs), uint (bs ! 4))
      else Inl StructError)"

section \<open>Communication layer\<close>

definition pack_header :: "MsgType \<Rightarrow> 'f SwarmAgent \<Rightarrow> error + byte list" where
  "pack_header msg_type s = struct_pack_BBI (msg_code msg_type) (agent_id s) (tick s)"

definition send_msg :: "MsgType \<Rightarrow> byte list \<Rightarrow> 'f SwarmAgent \<Rightarrow> 'f result" where
  "send_msg msg_type payload s =
     (case pack_header msg_type s of
        Inl e \<Rightarrow> Inl (e, s)
      | Inr header \<Rightarrow> Inr (s\<lparr>sent := sent s @ [header @ payload]\<rparr>))"

text \<open>The payload is packed before the tick is tested, so packing can raise at any tick.\<close>

definition send_heartbeat :: "'f float_ops \<Rightarrow> 'f SwarmAgent \<Rightarrow> 'f result" where
  "send_heartbeat fc s =
     (case struct_pack_ff fc (fst (position s)) (snd (position s)) of
        Inl e \<Rightarrow> Inl (e, s)
      | Inr payload \<Rightarrow> if tick s mod 10 = 0 then send_msg HEARTBEAT payload s else Inr s)"

section \<open>Leader election\<close>

text \<open>
  \<^verbatim>\<open>random.uniform(a, b)\<close> is \<^verbatim>\<open>a + (b - a) * random()\<close>; \<open>rnd\<close> is the value
  that \<^verbatim>\<open>random()\<close> returned, a number in \<open>[0, 1)\<close>.
\<close>

definition uniform :: "real \<Rightarrow> real \<Rightarrow> real \<Rightarrow> real" where
  "uniform a b rnd = a + (b - a) * rnd"

text \<open>
  \<^verbatim>\<open>_check_election_timeout\<close> reads the clock at up to three places; \<open>now_hb\<close>,
  \<open>now_start\<close> and \<open>now_wait\<close> are what \<^verbatim>\<open>time.time()\<close> returned at the failure
  detection, at the entry to the election wait and at the jitter check.
\<close>

definition check_election_timeout ::
  "real \<Rightarrow> real \<Rightarrow> real \<Rightarrow> real \<Rightarrow> 'f SwarmAgent \<Rightarrow> 'f result" where
  "check_election_timeout now_hb now_start now_wait rnd s =
     (if state s = LEADER then Inr s
      else
        let timeout = 3;
            time_since_hb = now_hb - last_heartbeat_time s;
            s1 = (if state s = FOLLOWER \<and> time_since_hb > timeout
                  then s\<lparr>state := ELECTION_WAIT,
                         election_wait_start := now_start,
                         election_delay := uniform 0 0.2 rnd,
                         leader_id := None,
                         leader_pos := None\<rparr>
                  else s)
        in if state s1 = ELECTION_WAIT
           then if now_wait - election_wait_start s1 > election_delay s1
                then let s2 = s1\<lparr>state := LEADER, leader_id := Some (agent_id s1)\<rparr>
                     in case pack_B (agent_id s2) of
                          Inl e \<Rightarrow> Inl (e, s2)
                        | Inr payload \<Rightarrow>
                            (case send_msg ELECTION_ACCLAIM payload s2 of
                               Inl r \<Rightarrow> Inl r
                             | Inr s3 \<Rightarrow> send_msg COORDINATOR [] s3)
                else Inr s1
           else Inr s1)"

definition handle_heartbeat ::
  "'f float_ops \<Rightarrow> real \<Rightarrow> int \<Rightarrow> byte list \<Rightarrow> 'f SwarmAgent \<Rightarrow> 'f result" where
  "handle_heartbeat fc now sender payload s =
     (if state s = LEADER \<and> sender < agent_id s then send_heartbeat fc s
      else
        let s1 = (if state s = LEADER \<and> sender > agent_id s
                  then s\<lparr>state := FOLLOWER\<rparr> else s);
            s2 = s1\<lparr>leader_id := Some sender, last_heartbeat_time := now\<rparr>
        in if length payload = 8
           then case struct_unpack_ff fc payload of
                  Inl e \<Rightarrow> Inl (e, s2)
                | Inr (lx, ly) \<Rightarrow>
                    (let s3 = s2\<lparr>leader_pos := Some (lx, ly)\<rparr>
                     in Inr (if state s3 = ELECTION_WAIT then s3\<lparr>state := FOLLOWER\<rparr> else s3))
           else Inr (if state s2 = ELECTION_WAIT then s2\<lparr>state := FOLLOWER\<rparr> else s2))"

definition handle_election_acclaim ::
  "'f float_ops \<Rightarrow> real \<Rightarrow> int \<Rightarrow> 'f SwarmAgent \<Rightarrow> 'f result" where
  "handle_election_acclaim fc now sender s =
     (if sender > agent_id s
      then Inr (s\<lparr>state := FOLLOWER, leader_id := Some sender, last_heartbeat_time := now\<rparr>)
      else if sender < agent_id s \<and> (state s = LEADER \<or> state s = ELECTION_WAIT)
      then send_heartbeat fc
             (if state s = ELECTION_WAIT
              then s\<lparr>state := LEADER, leader_id := Some (agent_id s)\<rparr> else s)
      else Inr s)"

definition handle_coordinator :: "real \<Rightarrow> int \<Rightarrow> 'f SwarmAgent \<Rightarrow> 'f result" where
  "handle_coordinator now sender s =
     Inr (s\<lparr>leader_id := Some sender, state := FOLLOWER, last_heartbeat_time := now\<rparr>)"

section \<open>Task allocation\<close>

text \<open>
  \<^verbatim>\<open>_calculate_utility\<close>, with the float operations in the order Python evaluates
  them: both squares, their sum, the root, then the capability test, then the quotient
  and the product.
\<close>

definition calculate_utility :: "'f float_ops \<Rightarrow> 'f SwarmAgent \<Rightarrow> 'f task \<Rightarrow> error + 'f" where
  "calculate_utility fc s t =
     (case f_pow2 fc (f_sub fc (fst (position s)) (fst (pos t))) of
        Inl e \<Rightarrow> Inl e
      | Inr dx2 \<Rightarrow>
     (case f_pow2 fc (f_sub fc (snd (position s)) (snd (pos t))) of
        Inl e \<Rightarrow> Inl e
      | Inr dy2 \<Rightarrow>
     (case f_sqrt fc (f_add fc dx2 dy2) of
        Inl e \<Rightarrow> Inl e
      | Inr dst \<Rightarrow>
          let has_cap = (case required_cap t of
                           None \<Rightarrow> f_lit fc 1
                         | Some c \<Rightarrow> if c \<notin> set (capabilities s) then f_lit fc 0
                                     else f_lit fc 1)
          in case f_div fc (f_lit fc 100) (f_add fc (f_lit fc 1) dst) of
               Inl e \<Rightarrow> Inl e
             | Inr q \<Rightarrow> Inr (f_mul fc q has_cap))))"

text \<open>\<^verbatim>\<open>self.tasks[task_id]['status'] = v\<close> for a key of the dictionary.\<close>

definition set_status ::
  "int \<Rightarrow> string \<Rightarrow> (int \<times> 'f task) list \<Rightarrow> (int \<times> 'f task) list" where
  "set_status task_id v ts =
     map (\<lambda>(k, t). if k = task_id then (k, t\<lparr>status := v\<rparr>) else (k, t)) ts"

text \<open>
  The loop of \<^verbatim>\<open>_process_tasks\<close> over \<^verbatim>\<open>self.tasks.items()\<close>: the second
  argument is what is left to visit.
\<close>

fun process_tasks_loop ::
  "'f float_ops \<Rightarrow> (int \<times> 'f task) list \<Rightarrow> 'f SwarmAgent \<Rightarrow> 'f result" where
  "process_tasks_loop fc [] s = Inr s"
| "process_tasks_loop fc ((task_id, t) # rest) s =
     (if status t = ''OPEN''
      then case calculate_utility fc s t of
             Inl e \<Rightarrow> Inl (e, s)
           | Inr util \<Rightarrow>
               if f_gt fc util (f_lit fc 20)
               then let s1 = s\<lparr>tasks := set_status task_id ''TENTATIVE'' (tasks s)\<rparr>
                    in case struct_pack_If fc task_id util of
                         Inl e \<Rightarrow> Inl (e, s1)
                       | Inr payload \<Rightarrow>
                           (case send_msg TASK_CLAIM payload s1 of
                              Inl r \<Rightarrow> Inl r
                            | Inr s2 \<Rightarrow> process_tasks_loop fc rest s2)
               else process_tasks_loop fc rest s
      else process_tasks_loop fc rest s)"

definition process_tasks :: "'f float_ops \<Rightarrow> 'f SwarmAgent \<Rightarrow> 'f result" where
  "process_tasks fc s = process_tasks_loop fc (tasks s) s"

definition handle_task_claim ::
  "'f float_ops \<Rightarrow> int \<Rightarrow> byte list \<Rightarrow> 'f SwarmAgent \<Rightarrow> 'f result" where
  "handle_task_claim fc sender payload s =
     (case struct_unpack_If fc payload of
        Inl e \<Rightarrow> Inl (e, s)
      | Inr (task_id, util) \<Rightarrow>
          if state s = LEADER
          then let current_claim = task_claims s task_id;
                   is_new_better = (case current_claim of
                                      None \<Rightarrow> True
                                    | Some c \<Rightarrow>
                                        f_gt fc util (f_add fc (utility c) (f_lit fc 5)))
               in if is_new_better
                  then let s1 = s\<lparr>task_claims :=
                                     (task_claims s)(task_id \<mapsto> \<lparr>winner = sender, utility = util\<rparr>)\<rparr>
                       in case struct_pack_IB task_id sender of
                            Inl e \<Rightarrow> Inl (e, s1)
                          | Inr p \<Rightarrow> send_msg TASK_CONFLICT p s1
                  else case current_claim of
                         None \<Rightarrow> Inr s
                       | Some c \<Rightarrow>
                           if winner c \<noteq> sender
                           then case struct_pack_IB task_id (winner c) of
                                  Inl e \<Rightarrow> Inl (e, s)
                                | Inr p \<Rightarrow> send_msg TASK_CONFLICT p s
                           else Inr s
          else Inr s)"

definition handle_task_conflict :: "int \<Rightarrow> byte list \<Rightarrow> 'f SwarmAgent \<Rightarrow> 'f result" where
  "handle_task_conflict sender payload s =
     (case struct_unpack_IB payload of
        Inl e \<Rightarrow> Inl (e, s)
      | Inr (task_id, winner_id) \<Rightarrow>
          if winner_id = agent_id s
          then if task_id \<in> set (map fst (tasks s))
               then Inr (s\<lparr>tasks := set_status task_id ''ASSIGNED'' (tasks s)\<rparr>)
               else Inr s
          else if task_id \<in> set (map fst (tasks s))
               then Inr (s\<lparr>tasks := set_status task_id ''LOCKED'' (tasks s)\<rparr>)
               else Inr s)"

section \<open>Inbound frames\<close>

text \<open>\<open>now\<close> is the clock reading of the handler that runs, if it reads the clock.\<close>

definition on_message_received ::
  "'f float_ops \<Rightarrow> real \<Rightarrow> byte list \<Rightarrow> 'f SwarmAgent \<Rightarrow> 'f result" where
  "on_message_received fc now data s =
     (if length data < 6 then Inr s
      else
        let header = take 6 data
        in case struct_unpack_BBI header of
             Inl e \<Rightarrow> Inl (e, s)
           | Inr (msg_type, sender, tck) \<Rightarrow>
               (let payload = drop 6 data
                in if msg_type = msg_code HEARTBEAT then handle_heartbeat fc now sender payload s
                   else if msg_type = msg_code ELECTION_ACCLAIM
                   then handle_election_acclaim fc now sender s
                   else if msg_type = msg_code COORDINATOR then handle_coordinator now sender s
                   else if msg_type = msg_code TASK_CLAIM then handle_task_claim fc sender payload s
                   else if msg_type = msg_code TASK_CONFLICT
                   then handle_task_conflict sender payload s
                   else Inr s))"

section \<open>Motion controller\<close>

definition bind_e :: "error + 'a \<Rightarrow> ('a \<Rightarrow> error + 'b) \<Rightarrow> error + 'b" where
  "bind_e m k = (case m of Inl e \<Rightarrow> Inl e | Inr x \<Rightarrow> k x)"

text \<open>\<^verbatim>\<open>math.sqrt(a**2 + b**2)\<close>.\<close>

definition root_sum_squares :: "'f float_ops \<Rightarrow> 'f \<Rightarrow> 'f \<Rightarrow> error + 'f" where
  "root_sum_squares fc a b =
     bind_e (f_pow2 fc a) (\<lambda>a2.
     bind_e (f_pow2 fc b) (\<lambda>b2.
     f_sqrt fc (f_add fc a2 b2)))"

text \<open>The formation block at the head of \<^verbatim>\<open>_update_physics\<close>.\<close>

definition formation_target :: "'f float_ops \<Rightarrow> 'f SwarmAgent \<Rightarrow> error + 'f SwarmAgent" where
  "formation_target fc s =
     (case leader_pos s of
        Some (lx, ly) \<Rightarrow>
          if state s = FOLLOWER
          then let rank = agent_id s
               in bind_e (f_of_int fc rank) (\<lambda>r.
                    let x_offset = f_mul fc (f_lit fc (- 2)) r;
                        y_offset = (if rank mod 2 = 0 then f_mul fc (f_lit fc 2) r
                                    else f_mul fc (f_lit fc (- 2)) r)
                    in Inr (s\<lparr>target := Some (f_add fc lx x_offset, f_add fc ly y_offset)\<rparr>))
          else Inr s
      | None \<Rightarrow> Inr s)"

definition attractive_force ::
  "'f float_ops \<Rightarrow> 'f \<times> 'f \<Rightarrow> 'f \<times> 'f \<Rightarrow> error + 'f \<times> 'f" where
  "attractive_force fc p tg =
     (let k_att = f_lit fc 1
      in bind_e (root_sum_squares fc (f_sub fc (fst tg) (fst p)) (f_sub fc (snd tg) (snd p)))
           (\<lambda>dist_to_target.
              Inr (if f_gt fc dist_to_target (f_lit fc 0.5)
                   then (f_mul fc k_att (f_sub fc (fst tg) (fst p)),
                         f_mul fc k_att (f_sub fc (snd tg) (snd p)))
                   else (f_lit fc 0, f_lit fc 0))))"

text \<open>
  One pass of the obstacle loop and of the neighbour loop: the force accumulated so far
  goes in and comes out. The operations are in the order Python evaluates them; a
  division by a zero \<^verbatim>\<open>norm\<close> raises.
\<close>

definition obstacle_step ::
  "'f float_ops \<Rightarrow> 'f \<times> 'f \<Rightarrow> 'f \<times> 'f \<times> 'f \<Rightarrow> 'f \<times> 'f \<Rightarrow> error + 'f \<times> 'f" where
  "obstacle_step fc p obs f_rep =
     (case obs of (ox, oy, r) \<Rightarrow>
        let k_rep = f_lit fc 50; rho_0 = f_lit fc 5
        in bind_e (root_sum_squares fc (f_sub fc (fst p) ox) (f_sub fc (snd p) oy)) (\<lambda>d0.
             let dist0 = f_sub fc d0 r;
                 dst = (if f_le fc dist0 (f_lit fc 0.001) then f_lit fc 0.001 else dist0)
             in if f_lt fc dst rho_0
                then bind_e (f_div fc (f_lit fc 1) dst) (\<lambda>a.
                     bind_e (f_div fc (f_lit fc 1) rho_0) (\<lambda>b.
                     bind_e (f_pow2 fc dst) (\<lambda>d2.
                     bind_e (f_div fc (f_mul fc k_rep (f_sub fc a b)) d2) (\<lambda>mag.
                       let dx = f_sub fc (fst p) ox;
                           dy = f_sub fc (snd p) oy
                       in bind_e (root_sum_squares fc dx dy) (\<lambda>nrm.
                          bind_e (f_div fc dx nrm) (\<lambda>ux.
                          bind_e (f_div fc dy nrm) (\<lambda>uy.
                            Inr (f_add fc (fst f_rep) (f_mul fc ux mag),
                                 f_add fc (snd f_rep) (f_mul fc uy mag)))))))))
                else Inr f_rep))"

definition neighbor_step ::
  "'f float_ops \<Rightarrow> 'f \<times> 'f \<Rightarrow> int \<times> 'f \<times> 'f \<Rightarrow> 'f \<times> 'f \<Rightarrow> error + 'f \<times> 'f" where
  "neighbor_step fc p nb f_sep =
     (case nb of (n_id, nx, ny) \<Rightarrow>
        let k_sep = f_lit fc 20
        in bind_e (root_sum_squares fc (f_sub fc (fst p) nx) (f_sub fc (snd p) ny)) (\<lambda>dist0.
             if f_lt fc dist0 (f_lit fc 2)
             then let dst = (if f_le fc dist0 (f_lit fc 0.001) then f_lit fc 0.001 else dist0)
                  in bind_e (f_pow2 fc dst) (\<lambda>d2.
                     bind_e (f_div fc k_sep d2) (\<lambda>mag.
                       let dx = f_sub fc (fst p) nx;
                           dy = f_sub fc (snd p) ny
                       in bind_e (root_sum_squares fc dx dy) (\<lambda>nrm.
                          bind_e (f_div fc dx nrm) (\<lambda>ux.
                          bind_e (f_div fc dy nrm) (\<lambda>uy.
                            Inr (f_add fc (fst f_sep) (f_mul fc ux mag),
                                 f_add fc (snd f_sep) (f_mul fc uy mag)))))))
             else Inr f_sep))"

fun obstacle_forces ::
  "'f float_ops \<Rightarrow> 'f \<times> 'f \<Rightarrow> ('f \<times> 'f \<times> 'f) list \<Rightarrow> 'f \<times> 'f \<Rightarrow> error + 'f \<times> 'f" where
  "obstacle_forces fc p [] f_rep = Inr f_rep"
| "obstacle_forces fc p (obs # rest) f_rep =
     (case obstacle_step fc p obs f_rep of
        Inl e \<Rightarrow> Inl e
      | Inr f \<Rightarrow> obstacle_forces fc p rest f)"

fun neighbor_forces ::
  "'f float_ops \<Rightarrow> 'f \<times> 'f \<Rightarrow> (int \<times> 'f \<times> 'f) list \<Rightarrow> 'f \<times> 'f \<Rightarrow> error + 'f \<times> 'f" where
  "neighbor_forces fc p [] f_sep = Inr f_sep"
| "neighbor_forces fc p (nb # rest) f_sep =
     (case neighbor_step fc p nb f_sep of
        Inl e \<Rightarrow> Inl e
      | Inr f \<Rightarrow> neighbor_forces fc p rest f)"

text \<open>The sum of the three forces for a node whose target is \<open>tg\<close>.\<close>

definition total_force :: "'f float_ops \<Rightarrow> 'f SwarmAgent \<Rightarrow> 'f \<times> 'f \<Rightarrow> error + 'f \<times> 'f" where
  "total_force fc s tg =
     bind_e (attractive_force fc (position s) tg) (\<lambda>f_att.
     bind_e (obstacle_forces fc (position s) (obstacles s) (f_lit fc 0, f_lit fc 0)) (\<lambda>f_rep.
     bind_e (neighbor_forces fc (position s) (neighbors s) (f_lit fc 0, f_lit fc 0)) (\<lambda>f_sep.
       Inr (f_add fc (f_add fc (fst f_att) (fst f_rep)) (fst f_sep),
            f_add fc (f_add fc (snd f_att) (snd f_rep)) (snd f_sep)))))"

text \<open>The last two statements of the step: the position moves by velocity times dt.\<close>

definition integrate_position :: "'f float_ops \<Rightarrow> 'f \<Rightarrow> 'f SwarmAgent \<Rightarrow> 'f SwarmAgent" where
  "integrate_position fc dt s =
     s\<lparr>position := (f_add fc (fst (position s)) (f_mul fc (fst (velocity s)) dt),
                    f_add fc (snd (position s)) (f_mul fc (snd (velocity s)) dt))\<rparr>"

definition update_physics :: "'f float_ops \<Rightarrow> 'f \<Rightarrow> 'f SwarmAgent \<Rightarrow> 'f result" where
  "update_physics fc dt s =
     (case formation_target fc s of
        Inl e \<Rightarrow> Inl (e, s)
      | Inr s1 \<Rightarrow>
     (case target s1 of
        None \<Rightarrow> Inr s1
      | Some tg \<Rightarrow>
     (case total_force fc s1 tg of
        Inl e \<Rightarrow> Inl (e, s1)
      | Inr f_total \<Rightarrow>
     (case root_sum_squares fc (fst f_total) (snd f_total) of
        Inl e \<Rightarrow> Inl (e, s1)
      | Inr v_mag \<Rightarrow>
          if f_gt fc v_mag (max_speed s1)
          then case f_div fc (max_speed s1) v_mag of
                 Inl e \<Rightarrow> Inl (e, s1)
               | Inr scale \<Rightarrow>
                   Inr (integrate_position fc dt
                          (s1\<lparr>velocity := (f_mul fc (fst f_total) scale,
                                           f_mul fc (snd f_total) scale)\<rparr>))
          else Inr (integrate_position fc dt (s1\<lparr>velocity := f_total\<rparr>))))))"

section \<open>Construction and sample data\<close>

text \<open>\<^verbatim>\<open>SwarmAgent.__init__\<close>; \<open>now\<close> is the clock reading taken there.\<close>

definition init :: "'f float_ops \<Rightarrow> int \<Rightarrow> int \<Rightarrow> string list \<Rightarrow> real \<Rightarrow> 'f SwarmAgent" where
  "init fc aid n_agents caps now =
     \<lparr>agent_id = aid, total_agents = n_agents, state = FOLLOWER, leader_id = None,
      leader_pos = None, last_heartbeat_time = now, tick = 0, election_wait_start = 0,
      election_delay = 0, tasks = [], task_claims = Map.empty,
      position = (f_lit fc 0, f_lit fc 0), velocity = (f_lit fc 0, f_lit fc 0),
      max_speed = f_lit fc 5, obstacles = [], neighbors = [], target = None,
      capabilities = caps, sent = []\<rparr>"

text \<open>
  Float operations for the concrete examples: exact arithmetic on real numbers, which
  is what binary64 computes on the operands that occur in the examples (small integers
  with exact quotients and roots, and a power of two), with the \<^verbatim>\<open>OverflowError\<close>
  of \<^verbatim>\<open>x ** 2\<close> from \<open>2 ^ 512\<close> on, and the binary32 images of the numbers that
  the examples put on the wire (0, 1, 50, 52, 55 and 60).
\<close>

definition test_floats :: "real float_ops" where
  "test_floats =
     \<lparr>f_lit = (\<lambda>x. x),
      f_add = (\<lambda>x y. x + y),
      f_sub = (\<lambda>x y. x - y),
      f_mul = (\<lambda>x y. x * y),
      f_div = (\<lambda>x y. if y = 0 then Inl ZeroDivisionError else Inr (x / y)),
      f_pow2 = (\<lambda>x. if \<bar>x\<bar> \<ge> 2 ^ 512 then Inl OverflowError else Inr (x * x)),
      f_sqrt = (\<lambda>x. if x < 0 then Inl ValueError else Inr (sqrt x)),
      f_gt = (\<lambda>x y. x > y),
      f_lt = (\<lambda>x y. x < y),
      f_le = (\<lambda>x y. x \<le> y),
      f_of_int = (\<lambda>n. Inr (real_of_int n)),
      f32_pack = (\<lambda>x. Inr (if x = 1 then [0x3F, 0x80, 0, 0]
                             else if x = 50 then [0x42, 0x48, 0, 0]
                             else if x = 52 then [0x42, 0x50, 0, 0]
                             else if x = 55 then [0x42, 0x5C, 0, 0]
                             else if x = 60 then [0x42, 0x70, 0, 0]
                             else [0, 0, 0, 0])),
      f32_unpack = (\<lambda>bs. if bs = [0x3F, 0x80, 0, 0] then 1
                          else if bs = [0x42, 0x48, 0, 0] then 50
                          else if bs = [0x42, 0x50, 0, 0] then 52
                          else if bs = [0x42, 0x5C, 0, 0] then 55
                          else if bs = [0x42, 0x70, 0, 0] then 60
                          else 0)\<rparr>"

text \<open>A leader whose claim table awards task 101 to node 2 at utility 50.\<close>

definition leader_with_claim :: "real SwarmAgent" where
  "leader_with_claim =
     (init test_floats 1 3 [] 0)\<lparr>state := LEADER, leader_id := Some 1,
        task_claims := [101 \<mapsto> \<lparr>winner = 2, utility = 50\<rparr>]\<rparr>"

text \<open>The task of the repository's tests: open, at \<open>p\<close>, requiring an extinguisher.\<close>

definition extinguisher_task :: "real \<times> real \<Rightarrow> real task" where
  "extinguisher_task p = \<lparr>status = ''OPEN'', pos = p, required_cap = Some ''extinguisher''\<rparr>"

text \<open>
  A node at the origin with an extinguisher and two open tasks for it, at distance 1
  (utility 50) and at distance 4 (utility exactly 20).
\<close>

definition scan_node :: "real SwarmAgent" where
  "scan_node =
     (init test_floats 1 3 [''extinguisher''] 0)
       \<lparr>tasks := [(101, extinguisher_task (1, 0)), (103, extinguisher_task (4, 0))]\<rparr>"

text \<open>
  The same node with a task at \<open>x = 2 ^ 600\<close>, where the square of the distance
  overflows, ahead of the task at distance 1.
\<close>

definition far_scan_node :: "real SwarmAgent" where
  "far_scan_node =
     (init test_floats 1 3 [''extinguisher''] 0)
       \<lparr>tasks := [(100, extinguisher_task (2 ^ 600, 0)), (101, extinguisher_task (1, 0))]\<rparr>"

text \<open>
  A node at the origin heading for (3, 4), with node 2 reported at the origin too,
  where every node starts.
\<close>

definition crowded_node :: "real SwarmAgent" where
  "crowded_node =
     (init test_floats 1 3 [] 0)\<lparr>target := Some (3, 4), neighbors := [(2, 0, 0)]\<rparr>"

section \<open>Vocabulary of the properties\<close>

text \<open>
  The six-byte header of a frame sent by node \<open>a\<close> at tick \<open>k\<close>: type code, sender,
  tick as unsigned 32-bit big-endian.
\<close>

definition header_bytes :: "MsgType \<Rightarrow> int \<Rightarrow> int \<Rightarrow> byte list" where
  "header_bytes t a k = [word_of_int (msg_code t), word_of_int a] @ be32 k"

text \<open>The node identity fits one byte and the tick counter 32 bits.\<close>

definition wire_ok :: "'f SwarmAgent \<Rightarrow> bool" where
  "wire_ok s \<longleftrightarrow> 0 \<le> agent_id s \<and> agent_id s \<le> 255 \<and> 0 \<le> tick s \<and> tick s < 2 ^ 32"

text \<open>A leader names itself as leader.\<close>

definition leader_inv :: "'f SwarmAgent \<Rightarrow> bool" where
  "leader_inv s \<longleftrightarrow> (state s = LEADER \<longrightarrow> leader_id s = Some (agent_id s))"

text \<open>
  The operations of the election state machine: the timeout check (with its clock
  readings and random number), the three election handlers called directly, and the
  delivery of an arbitrary frame.
\<close>

datatype election_op =
    CheckTimeout real real real real
  | OnHeartbeat real int "byte list"
  | OnAcclaim real int
  | OnCoordinator real int
  | Deliver real "byte list"

fun run_op :: "'f float_ops \<Rightarrow> election_op \<Rightarrow> 'f SwarmAgent \<Rightarrow> 'f result" where
  "run_op fc (CheckTimeout now_hb now_start now_wait rnd) s =
     check_election_timeout now_hb now_start now_wait rnd s"
| "run_op fc (OnHeartbeat now sender payload) s = handle_heartbeat fc now sender payload s"
| "run_op fc (OnAcclaim now sender) s = handle_election_acclaim fc now sender s"
| "run_op fc (OnCoordinator now sender) s = handle_coordinator now sender s"
| "run_op fc (Deliver now data) s = on_message_received fc now data s"

text \<open>
  For the claim scan: a task is claimed when its status is Open and the utility
  computed for it is greater than the literal 20.0; the scan marks a claimed entry of
  the task map Tentative and sends a TASK_CLAIM frame for it: header, task id as
  unsigned 32-bit, utility as 32-bit float.
\<close>

definition claimed :: "'f float_ops \<Rightarrow> 'f SwarmAgent \<Rightarrow> 'f task \<Rightarrow> bool" where
  "claimed fc s t \<longleftrightarrow>
     status t = ''OPEN''
     \<and> (case calculate_utility fc s t of Inl e \<Rightarrow> False | Inr u \<Rightarrow> f_gt fc u (f_lit fc 20))"

definition mark_claimed :: "'f float_ops \<Rightarrow> 'f SwarmAgent \<Rightarrow> int \<times> 'f task \<Rightarrow> int \<times> 'f task" where
  "mark_claimed fc s kt =
     (if claimed fc s (snd kt) then (fst kt, (snd kt)\<lparr>status := ''TENTATIVE''\<rparr>) else kt)"

definition utility_bytes :: "'f float_ops \<Rightarrow> 'f SwarmAgent \<Rightarrow> 'f task \<Rightarrow> byte list" where
  "utility_bytes fc s t =
     (case calculate_utility fc s t of
        Inl e \<Rightarrow> []
      | Inr u \<Rightarrow> (case f32_pack fc u of Inl e \<Rightarrow> [] | Inr b \<Rightarrow> b))"

definition claim_frame :: "'f float_ops \<Rightarrow> 'f SwarmAgent \<Rightarrow> int \<times> 'f task \<Rightarrow> byte list" where
  "claim_frame fc s kt =
     header_bytes TASK_CLAIM (agent_id s) (tick s) @ be32 (fst kt) @ utility_bytes fc s (snd kt)"

text \<open>
  The scan completes when, for every Open task, the utility is computed without a
  raise and, if the task is claimed, packs as a 32-bit float.
\<close>

definition computes :: "'f float_ops \<Rightarrow> 'f SwarmAgent \<Rightarrow> 'f task \<Rightarrow> bool" where
  "computes fc s t \<longleftrightarrow>
     (case calculate_utility fc s t of
        Inl e \<Rightarrow> False
      | Inr u \<Rightarrow> \<not> f_gt fc u (f_lit fc 20) \<or> (case f32_pack fc u of Inl e \<Rightarrow> False | Inr b \<Rightarrow> True))"

text \<open>The type codes of the wire format.\<close>

definition known_code :: "int \<Rightarrow> bool" where
  "known_code c \<longleftrightarrow> c \<in> {1, 2, 3, 4, 5}"

text \<open>
  The payload size that the wire format declares for a type code, and the frames the
  specification calls malformed: shorter than a header, of unknown type, or with a
  payload of another size than declared.
\<close>

definition declared_size :: "int \<Rightarrow> nat" where
  "declared_size c =
     (if c = 1 then 8 else if c = 2 then 1 else if c = 3 then 0 else if c = 4 then 8 else 5)"

definition malformed :: "byte list \<Rightarrow> bool" where
  "malformed data \<longleftrightarrow>
     length data < 6 \<or> \<not> known_code (uint (data ! 0))
     \<or> length data - 6 \<noteq> declared_size (uint (data ! 0))"

section \<open>Packing and sending\<close>

lemma pack_B_ok: "0 \<le> n \<Longrightarrow> n \<le> 255 \<Longrightarrow> pack_B n = Inr [word_of_int n]"
  by (simp add: pack_B_def)

lemma pack_header_ok:
  "wire_ok s \<Longrightarrow> pack_header t s = Inr (header_bytes t (agent_id s) (tick s))"
  by (cases t) (simp_all add: wire_ok_def pack_header_def struct_pack_BBI_def pack_B_def
      pack_I_def header_bytes_def)

lemma send_msg_ok:
  "wire_ok s \<Longrightarrow>
   send_msg t p s = Inr (s\<lparr>sent := sent s @ [header_bytes t (agent_id s) (tick s) @ p]\<rparr>)"
  by (simp add: send_msg_def pack_header_ok)

lemma wire_ok_sent [simp]: "wire_ok (s\<lparr>sent := x\<rparr>) = wire_ok s"
  by (simp add: wire_ok_def)

lemma send_msg_fields:
  "state (state_after (send_msg t p s)) = state s"
  "leader_id (state_after (send_msg t p s)) = leader_id s"
  "agent_id (state_after (send_msg t p s)) = agent_id s"
  by (simp_all add: send_msg_def state_after_def split: sum.splits)

section \<open>The election invariant\<close>

lemma leader_inv_send_msg: "leader_inv (state_after (send_msg t p s)) = leader_inv s"
  by (simp add: leader_inv_def send_msg_fields)

lemma leader_inv_send_heartbeat: "leader_inv (state_after (send_heartbeat fc s)) = leader_inv s"
proof (cases "struct_pack_ff fc (fst (position s)) (snd (position s))")
  case (Inl e)
  then show ?thesis by (simp add: send_heartbeat_def state_after_def)
next
  case (Inr payload)
  then show ?thesis
    by (simp add: send_heartbeat_def leader_inv_send_msg) (simp add: state_after_def)
qed

lemma leader_inv_check:
  "leader_inv s \<Longrightarrow> leader_inv (state_after (check_election_timeout a b c r s))"
  unfolding check_election_timeout_def Let_def
  by (auto simp: leader_inv_def state_after_def send_msg_def split: sum.splits if_splits)

lemma leader_inv_heartbeat:
  "leader_inv s \<Longrightarrow> leader_inv (state_after (handle_heartbeat fc now sender payload s))"
  unfolding handle_heartbeat_def Let_def
  by (auto simp: leader_inv_send_heartbeat struct_unpack_ff_def)
     (auto simp: leader_inv_def state_after_def)

lemma leader_inv_acclaim:
  "leader_inv s \<Longrightarrow> leader_inv (state_after (handle_election_acclaim fc now sender s))"
  unfolding handle_election_acclaim_def
  by (auto simp: leader_inv_send_heartbeat)
     (auto simp: leader_inv_def state_after_def)

lemma leader_inv_coordinator:
  "leader_inv (state_after (handle_coordinator now sender s))"
  by (simp add: handle_coordinator_def leader_inv_def state_after_def)

lemma leader_inv_task_claim:
  "leader_inv s \<Longrightarrow> leader_inv (state_after (handle_task_claim fc sender payload s))"
  unfolding handle_task_claim_def Let_def
  by (auto simp: leader_inv_def state_after_def send_msg_def split: sum.splits option.splits)

lemma leader_inv_task_conflict:
  "leader_inv s \<Longrightarrow> leader_inv (state_after (handle_task_conflict sender payload s))"
  unfolding handle_task_conflict_def
  by (auto simp: leader_inv_def state_after_def split: sum.splits)

lemma leader_inv_deliver:
  "leader_inv s \<Longrightarrow> leader_inv (state_after (on_message_received fc now data s))"
  unfolding on_message_received_def Let_def
  by (auto simp: leader_inv_heartbeat leader_inv_acclaim leader_inv_coordinator
        leader_inv_task_claim leader_inv_task_conflict split: sum.splits)
     (auto simp: state_after_def)

text \<open>
  C1. If a node satisfies "role Leader implies leader_id is the node's own id", it
  still does after any single operation of the election state machine: the timeout
  check with any clock readings, the handler of a HEARTBEAT, ELECTION_ACCLAIM or
  COORDINATOR from any sender id, or the delivery of any frame. This holds for the
  state the operation leaves behind whether it returns or raises.
\<close>

theorem leader_inv_preserved:
  "leader_inv s \<Longrightarrow> leader_inv (state_after (run_op fc op s))"
  by (cases op)
     (simp_all add: leader_inv_check leader_inv_heartbeat leader_inv_acclaim
        leader_inv_coordinator leader_inv_deliver)

theorem leader_inv_preserved_witness:
  "leader_inv ((init test_floats 1 3 [] 0)\<lparr>state := ELECTION_WAIT\<rparr>)
   \<and> leader_inv (state_after (run_op test_floats (CheckTimeout 1 1 1 0)
                                ((init test_floats 1 3 [] 0)\<lparr>state := ELECTION_WAIT\<rparr>)))
   \<and> state (state_after (run_op test_floats (CheckTimeout 1 1 1 0)
                            ((init test_floats 1 3 [] 0)\<lparr>state := ELECTION_WAIT\<rparr>))) = LEADER"
proof -
  let ?n = "(init test_floats 1 3 [] 0)\<lparr>state := ELECTION_WAIT\<rparr>"
  have h: "leader_inv ?n" by (simp add: leader_inv_def init_def)
  have "state (state_after (run_op test_floats (CheckTimeout 1 1 1 0) ?n)) = LEADER"
    by (simp add: check_election_timeout_def Let_def init_def pack_B_def send_msg_def
        pack_header_def struct_pack_BBI_def pack_I_def state_after_def)
  with h leader_inv_preserved [OF h, of test_floats "CheckTimeout 1 1 1 0"]
  show ?thesis by simp
qed

section \<open>The timeout check\<close>

text \<open>
  C2. For a node in role ElectionWait whose identity and tick fit the wire header: if
  the clock reading of the jitter check minus election_wait_start exceeds the delay, the
  check returns with role Leader, leader_id the node's own id and exactly two more
  frames sent, an ELECTION_ACCLAIM whose payload is the own id, then a COORDINATOR with
  empty payload; otherwise it returns the state unchanged, nothing sent.
\<close>

theorem election_wait_expiry:
  assumes "state s = ELECTION_WAIT" and "wire_ok s"
  shows "check_election_timeout now_hb now_start now rnd s =
     (if now - election_wait_start s > election_delay s
      then Inr (s\<lparr>state := LEADER, leader_id := Some (agent_id s),
                  sent := sent s @
                    [header_bytes ELECTION_ACCLAIM (agent_id s) (tick s) @ [word_of_int (agent_id s)],
                     header_bytes COORDINATOR (agent_id s) (tick s)]\<rparr>)
      else Inr s)"
proof -
  from assms(2) have w: "wire_ok (s\<lparr>state := LEADER, leader_id := Some (agent_id s)\<rparr>)"
    by (simp add: wire_ok_def)
  from assms(2) have b: "pack_B (agent_id s) = Inr [word_of_int (agent_id s)]"
    by (simp add: wire_ok_def pack_B_ok)
  show ?thesis
    using assms(1) b
    by (simp add: check_election_timeout_def Let_def send_msg_ok w)
qed

theorem election_wait_expiry_witness:
  "state ((init test_floats 1 3 [] 0)\<lparr>state := ELECTION_WAIT, election_delay := 0.1\<rparr>)
     = ELECTION_WAIT
   \<and> wire_ok ((init test_floats 1 3 [] 0)\<lparr>state := ELECTION_WAIT, election_delay := 0.1\<rparr>)
   \<and> check_election_timeout 1 1 1 0
        ((init test_floats 1 3 [] 0)\<lparr>state := ELECTION_WAIT, election_delay := 0.1\<rparr>)
     = Inr ((init test_floats 1 3 [] 0)\<lparr>state := LEADER, election_delay := 0.1,
              leader_id := Some 1,
              sent := [[2, 1, 0, 0, 0, 0, 1], [3, 1, 0, 0, 0, 0]]\<rparr>)"
proof -
  let ?n = "(init test_floats 1 3 [] 0)\<lparr>state := ELECTION_WAIT, election_delay := 0.1\<rparr>"
  have h1: "state ?n = ELECTION_WAIT" by (simp add: init_def)
  have h2: "wire_ok ?n" by (simp add: init_def wire_ok_def)
  show ?thesis
    using election_wait_expiry [OF h1 h2, of 1 1 1 0] h1 h2
    by (simp add: init_def header_bytes_def be32_def)
qed

text \<open>
  With one clock reading for the whole check and a delay that is not negative, a
  follower enters the election wait exactly when the heartbeat is older than 3.0
  seconds, records the reading and the sampled delay, clears leader_id and leader_pos,
  and stays in the wait; otherwise nothing changes.
\<close>

lemma follower_timeout_one_reading:
  assumes "state s = FOLLOWER" and "0 \<le> rnd"
  shows "check_election_timeout now now now rnd s =
     (if now - last_heartbeat_time s > 3
      then Inr (s\<lparr>state := ELECTION_WAIT, election_wait_start := now,
                  election_delay := uniform 0 0.2 rnd, leader_id := None, leader_pos := None\<rparr>)
      else Inr s)"
  using assms by (simp add: check_election_timeout_def Let_def uniform_def)

text \<open>
  C3. The code reads the clock again at the entry to the wait and at the jitter test,
  and runs the jitter test in the same call. A follower of id 1 whose heartbeat is 5 s
  old, with a sampled delay of 0.2 ms and a clock that advances by 1 ms between the
  last two readings, leaves the check as Leader, leader_id its own id, an
  ELECTION_ACCLAIM and a COORDINATOR sent: not in ElectionWait with the leader view
  cleared.
\<close>

theorem follower_timeout_race:
  "state (init test_floats 1 3 [] 0) = FOLLOWER
   \<and> 5 - last_heartbeat_time (init test_floats 1 3 [] 0) > 3
   \<and> uniform 0 0.2 0.001 = 0.0002
   \<and> check_election_timeout 5 5 5.001 0.001 (init test_floats 1 3 [] 0)
      = Inr ((init test_floats 1 3 [] 0)
              \<lparr>state := LEADER, election_wait_start := 5, election_delay := 0.0002,
               leader_id := Some 1,
               sent := [[2, 1, 0, 0, 0, 0, 1], [3, 1, 0, 0, 0, 0]]\<rparr>)"
  by (simp add: check_election_timeout_def Let_def init_def pack_B_def send_msg_def
        pack_header_def struct_pack_BBI_def pack_I_def be32_def uniform_def)

section \<open>Election handlers\<close>

text \<open>
  C5. A Leader of id 2 at the origin receives an ELECTION_ACCLAIM from sender 1. At
  tick 0 it stays Leader and sends one HEARTBEAT whose payload is its position as two
  32-bit floats, which is what the repository's test checks. At tick 1 it stays Leader
  and sends nothing: the heartbeat of the suppression path goes through the test of the
  tick that subsamples the periodic heartbeat.
\<close>

theorem suppress_lower_acclaim_ticks:
  "handle_election_acclaim test_floats 0 1
     ((init test_floats 2 3 [] 0)\<lparr>state := LEADER, leader_id := Some 2\<rparr>)
   = Inr ((init test_floats 2 3 [] 0)\<lparr>state := LEADER, leader_id := Some 2,
            sent := [[1, 2, 0, 0, 0, 0, 0, 0, 0, 0, 0, 0, 0, 0]]\<rparr>)
   \<and> handle_election_acclaim test_floats 0 1
        ((init test_floats 2 3 [] 0)\<lparr>state := LEADER, leader_id := Some 2, tick := 1\<rparr>)
      = Inr ((init test_floats 2 3 [] 0)\<lparr>state := LEADER, leader_id := Some 2, tick := 1\<rparr>)
   \<and> sent ((init test_floats 2 3 [] 0)\<lparr>state := LEADER, leader_id := Some 2, tick := 1\<rparr>) = []"
  by (simp add: handle_election_acclaim_def send_heartbeat_def struct_pack_ff_def init_def
      test_floats_def send_msg_def pack_header_def struct_pack_BBI_def pack_B_def pack_I_def
      be32_def)

section \<open>Inbound frames\<close>

lemma unpack_header:
  "6 \<le> length data \<Longrightarrow>
   struct_unpack_BBI (take 6 data) =
     Inr (uint (data ! 0), uint (data ! 1), unpack_I (drop 2 (take 6 data)))"
  by (simp add: struct_unpack_BBI_def)

text \<open>
  C10. A HEARTBEAT frame of at least 6 bytes whose payload is not exactly 8 bytes
  long, received by a node that does not take the suppression branch (it is not a
  Leader with an id above the sender's): the handler returns, leader_id is the sender,
  last_heartbeat is the clock reading, a node in ElectionWait (or a Leader with a lower
  id) becomes Follower, and every other field, leader_pos among them, is as before;
  nothing is sent.
\<close>

theorem heartbeat_without_position:
  assumes "6 \<le> length data" and "uint (data ! 0) = msg_code HEARTBEAT"
    and "length (drop 6 data) \<noteq> 8"
    and "\<not> (state s = LEADER \<and> uint (data ! 1) < agent_id s)"
  shows "on_message_received fc now data s =
     Inr (s\<lparr>state := (if state s = LEADER \<and> uint (data ! 1) > agent_id s then FOLLOWER
                       else if state s = ELECTION_WAIT then FOLLOWER else state s),
             leader_id := Some (uint (data ! 1)),
             last_heartbeat_time := now\<rparr>)"
  using assms
  by (cases "state s") (auto simp: on_message_received_def unpack_header handle_heartbeat_def Let_def)

theorem heartbeat_without_position_witness:
  "6 \<le> length [1, 5, 0, 0, 0, 0 :: byte] \<and> uint ([1, 5, 0, 0, 0, 0 :: byte] ! 0) = msg_code HEARTBEAT
   \<and> length (drop 6 [1, 5, 0, 0, 0, 0 :: byte]) \<noteq> 8
   \<and> \<not> (state ((init test_floats 1 3 [] 0)\<lparr>state := ELECTION_WAIT, leader_pos := Some (1, 1)\<rparr>)
            = LEADER
          \<and> uint ([1, 5, 0, 0, 0, 0 :: byte] ! 1)
             < agent_id ((init test_floats 1 3 [] 0)
                          \<lparr>state := ELECTION_WAIT, leader_pos := Some (1, 1)\<rparr>))
   \<and> on_message_received test_floats 7 [1, 5, 0, 0, 0, 0]
        ((init test_floats 1 3 [] 0)\<lparr>state := ELECTION_WAIT, leader_pos := Some (1, 1)\<rparr>)
      = Inr ((init test_floats 1 3 [] 0)\<lparr>state := FOLLOWER, leader_pos := Some (1, 1),
               leader_id := Some 5, last_heartbeat_time := 7\<rparr>)"
proof -
  let ?n = "(init test_floats 1 3 [] 0)\<lparr>state := ELECTION_WAIT, leader_pos := Some (1, 1)\<rparr>"
  let ?d = "[1, 5, 0, 0, 0, 0 :: byte]"
  have h1: "6 \<le> length ?d" by simp
  have h2: "uint (?d ! 0) = msg_code HEARTBEAT" by simp
  have h3: "length (drop 6 ?d) \<noteq> 8" by simp
  have h4: "\<not> (state ?n = LEADER \<and> uint (?d ! 1) < agent_id ?n)" by (simp add: init_def)
  show ?thesis
    using heartbeat_without_position [OF h1 h2 h3 h4, of test_floats 7] h4
    by (simp add: init_def)
qed

text \<open>
  C6, as stated, fails. A HEARTBEAT frame with an empty payload does not match the
  declared layout of its type, yet it is processed: the receiver takes the sender as
  leader and refreshes its heartbeat clock.
\<close>

theorem malformed_frame_counterexample:
  "malformed [1, 5, 0, 0, 0, 0]
   \<and> on_message_received test_floats 7 [1, 5, 0, 0, 0, 0] (init test_floats 1 3 [] 0)
      = Inr ((init test_floats 1 3 [] 0)\<lparr>leader_id := Some 5, last_heartbeat_time := 7\<rparr>)
   \<and> (init test_floats 1 3 [] 0)\<lparr>leader_id := Some 5, last_heartbeat_time := 7\<rparr>
      \<noteq> init test_floats 1 3 [] 0"
  by (simp add: malformed_def known_code_def declared_size_def on_message_received_def
      struct_unpack_BBI_def handle_heartbeat_def Let_def init_def)

text \<open>
  TASK_CLAIM and TASK_CONFLICT frames with a payload of the wrong size raise
  \<^verbatim>\<open>struct.error\<close> to the caller: their handlers unpack without the length check
  that the HEARTBEAT handler has.
\<close>

lemma malformed_task_claim_raises:
  "malformed [4, 5, 0, 0, 0, 0]
   \<and> on_message_received test_floats 7 [4, 5, 0, 0, 0, 0] (init test_floats 1 3 [] 0)
      = Inl (StructError, init test_floats 1 3 [] 0)"
  by (simp add: malformed_def known_code_def declared_size_def on_message_received_def
      struct_unpack_BBI_def handle_task_claim_def struct_unpack_If_def)

lemma malformed_task_conflict_raises:
  "malformed [5, 5, 0, 0, 0, 0]
   \<and> on_message_received test_floats 7 [5, 5, 0, 0, 0, 0] (init test_floats 1 3 [] 0)
      = Inl (StructError, init test_floats 1 3 [] 0)"
  by (simp add: malformed_def known_code_def declared_size_def on_message_received_def
      struct_unpack_BBI_def handle_task_conflict_def struct_unpack_IB_def)

text \<open>
  C6, amended. A frame shorter than 6 bytes and a frame with an unknown type code are
  silently dropped: the handler returns, the state is unchanged, nothing is sent. A
  frame of at least 6 bytes with an election type is processed whatever its payload
  is. An ELECTION_ACCLAIM or COORDINATOR is handled from the sender id alone. A
  HEARTBEAT whose payload is not 8 bytes long is handled as any heartbeat except that
  leader_pos is left as it was: a Leader with an id above the sender's answers through
  \<^verbatim>\<open>_send_heartbeat\<close>; any other node takes the sender as leader_id and the clock
  reading as last_heartbeat, becomes Follower if it was in ElectionWait or a Leader
  with an id below the sender's, changes no other field and sends nothing.
\<close>

theorem short_or_unknown_frame_dropped:
  "(length data < 6 \<or> \<not> known_code (uint (data ! 0)) \<longrightarrow>
      on_message_received fc now data s = Inr s)
   \<and> (6 \<le> length data \<and> uint (data ! 0) = msg_code ELECTION_ACCLAIM \<longrightarrow>
      on_message_received fc now data s = handle_election_acclaim fc now (uint (data ! 1)) s)
   \<and> (6 \<le> length data \<and> uint (data ! 0) = msg_code COORDINATOR \<longrightarrow>
      on_message_received fc now data s = handle_coordinator now (uint (data ! 1)) s)
   \<and> (6 \<le> length data \<and> uint (data ! 0) = msg_code HEARTBEAT \<and> length (drop 6 data) \<noteq> 8 \<longrightarrow>
      on_message_received fc now data s =
        (if state s = LEADER \<and> uint (data ! 1) < agent_id s then send_heartbeat fc s
         else Inr (s\<lparr>state := (if state s = LEADER \<and> uint (data ! 1) > agent_id s
                                  then FOLLOWER
                                  else if state s = ELECTION_WAIT then FOLLOWER else state s),
                      leader_id := Some (uint (data ! 1)),
                      last_heartbeat_time := now\<rparr>)))"
proof -
  have 1: "on_message_received fc now data s = Inr s"
    if "length data < 6 \<or> \<not> known_code (uint (data ! 0))"
    using that by (auto simp: on_message_received_def unpack_header known_code_def)
  have 2: "on_message_received fc now data s = handle_election_acclaim fc now (uint (data ! 1)) s"
    if "6 \<le> length data" "uint (data ! 0) = msg_code ELECTION_ACCLAIM"
    using that by (simp add: on_message_received_def unpack_header)
  have 3: "on_message_received fc now data s = handle_coordinator now (uint (data ! 1)) s"
    if "6 \<le> length data" "uint (data ! 0) = msg_code COORDINATOR"
    using that by (simp add: on_message_received_def unpack_header)
  have 4: "on_message_received fc now data s =
        (if state s = LEADER \<and> uint (data ! 1) < agent_id s then send_heartbeat fc s
         else Inr (s\<lparr>state := (if state s = LEADER \<and> uint (data ! 1) > agent_id s
                                  then FOLLOWER
                                  else if state s = ELECTION_WAIT then FOLLOWER else state s),
                      leader_id := Some (uint (data ! 1)),
                      last_heartbeat_time := now\<rparr>))"
    if "6 \<le> length data" "uint (data ! 0) = msg_code HEARTBEAT" "length (drop 6 data) \<noteq> 8"
    using that
    by (cases "state s")
       (auto simp: on_message_received_def unpack_header handle_heartbeat_def Let_def)
  from 1 2 3 4 show ?thesis by blast
qed

theorem short_or_unknown_frame_dropped_witness:
  "length [1, 5, 0 :: byte] < 6
   \<and> on_message_received test_floats 7 [1, 5, 0] (init test_floats 1 3 [] 0)
      = Inr (init test_floats 1 3 [] 0)
   \<and> \<not> known_code (uint ([9, 5, 0, 0, 0, 0, 1, 2 :: byte] ! 0))
   \<and> on_message_received test_floats 7 [9, 5, 0, 0, 0, 0, 1, 2] (init test_floats 1 3 [] 0)
      = Inr (init test_floats 1 3 [] 0)
   \<and> 6 \<le> length [2, 5, 0, 0, 0, 0 :: byte]
   \<and> uint ([2, 5, 0, 0, 0, 0 :: byte] ! 0) = msg_code ELECTION_ACCLAIM
   \<and> on_message_received test_floats 7 [2, 5, 0, 0, 0, 0] (init test_floats 1 3 [] 0)
      = Inr ((init test_floats 1 3 [] 0)\<lparr>leader_id := Some 5, last_heartbeat_time := 7\<rparr>)
   \<and> 6 \<le> length [3, 5, 0, 0, 0, 0, 9 :: byte]
   \<and> uint ([3, 5, 0, 0, 0, 0, 9 :: byte] ! 0) = msg_code COORDINATOR
   \<and> on_message_received test_floats 7 [3, 5, 0, 0, 0, 0, 9] (init test_floats 1 3 [] 0)
      = Inr ((init test_floats 1 3 [] 0)\<lparr>leader_id := Some 5, last_heartbeat_time := 7\<rparr>)
   \<and> 6 \<le> length [1, 5, 0, 0, 0, 0, 9 :: byte]
   \<and> uint ([1, 5, 0, 0, 0, 0, 9 :: byte] ! 0) = msg_code HEARTBEAT
   \<and> length (drop 6 [1, 5, 0, 0, 0, 0, 9 :: byte]) \<noteq> 8
   \<and> on_message_received test_floats 7 [1, 5, 0, 0, 0, 0, 9]
        ((init test_floats 1 3 [] 0)\<lparr>state := ELECTION_WAIT\<rparr>)
      = Inr ((init test_floats 1 3 [] 0)\<lparr>state := FOLLOWER, leader_id := Some 5,
               last_heartbeat_time := 7\<rparr>)"
proof -
  let ?n = "init test_floats 1 3 [] 0 :: real SwarmAgent"
  have h1: "length [1, 5, 0 :: byte] < 6"
    by simp
  have h2: "\<not> known_code (uint ([9, 5, 0, 0, 0, 0, 1, 2 :: byte] ! 0))"
    by (simp add: known_code_def)
  have h3: "6 \<le> length [2, 5, 0, 0, 0, 0 :: byte]"
    "uint ([2, 5, 0, 0, 0, 0 :: byte] ! 0) = msg_code ELECTION_ACCLAIM"
    by simp_all
  have h4: "6 \<le> length [3, 5, 0, 0, 0, 0, 9 :: byte]"
    "uint ([3, 5, 0, 0, 0, 0, 9 :: byte] ! 0) = msg_code COORDINATOR"
    by simp_all
  have h5: "6 \<le> length [1, 5, 0, 0, 0, 0, 9 :: byte]"
    "uint ([1, 5, 0, 0, 0, 0, 9 :: byte] ! 0) = msg_code HEARTBEAT"
    "length (drop 6 [1, 5, 0, 0, 0, 0, 9 :: byte]) \<noteq> 8"
    by simp_all
  have a: "handle_election_acclaim test_floats 7 (uint ([2, 5, 0, 0, 0, 0 :: byte] ! 1)) ?n
      = Inr (?n\<lparr>leader_id := Some 5, last_heartbeat_time := 7\<rparr>)"
    by (simp add: handle_election_acclaim_def init_def)
  have c: "handle_coordinator 7 (uint ([3, 5, 0, 0, 0, 0, 9 :: byte] ! 1)) ?n
      = Inr (?n\<lparr>leader_id := Some 5, last_heartbeat_time := 7\<rparr>)"
    by (simp add: handle_coordinator_def init_def)
  have r1: "on_message_received test_floats 7 [1, 5, 0] ?n = Inr ?n"
    using short_or_unknown_frame_dropped [of "[1, 5, 0]" test_floats 7 ?n] h1 by blast
  have r2: "on_message_received test_floats 7 [9, 5, 0, 0, 0, 0, 1, 2] ?n = Inr ?n"
    using short_or_unknown_frame_dropped [of "[9, 5, 0, 0, 0, 0, 1, 2]" test_floats 7 ?n] h2
    by blast
  have r3: "on_message_received test_floats 7 [2, 5, 0, 0, 0, 0] ?n
      = Inr (?n\<lparr>leader_id := Some 5, last_heartbeat_time := 7\<rparr>)"
    using short_or_unknown_frame_dropped [of "[2, 5, 0, 0, 0, 0]" test_floats 7 ?n] h3 a
    by simp
  have r4: "on_message_received test_floats 7 [3, 5, 0, 0, 0, 0, 9] ?n
      = Inr (?n\<lparr>leader_id := Some 5, last_heartbeat_time := 7\<rparr>)"
    using short_or_unknown_frame_dropped [of "[3, 5, 0, 0, 0, 0, 9]" test_floats 7 ?n] h4 c
    by simp
  have "on_message_received test_floats 7 [1, 5, 0, 0, 0, 0, 9] (?n\<lparr>state := ELECTION_WAIT\<rparr>)
      = (if state (?n\<lparr>state := ELECTION_WAIT\<rparr>) = LEADER
            \<and> uint ([1, 5, 0, 0, 0, 0, 9 :: byte] ! 1) < agent_id (?n\<lparr>state := ELECTION_WAIT\<rparr>)
         then send_heartbeat test_floats (?n\<lparr>state := ELECTION_WAIT\<rparr>)
         else Inr (?n\<lparr>state := ELECTION_WAIT\<rparr>
                    \<lparr>state := (if state (?n\<lparr>state := ELECTION_WAIT\<rparr>) = LEADER
                                  \<and> uint ([1, 5, 0, 0, 0, 0, 9 :: byte] ! 1)
                                      > agent_id (?n\<lparr>state := ELECTION_WAIT\<rparr>)
                               then FOLLOWER
                               else if state (?n\<lparr>state := ELECTION_WAIT\<rparr>) = ELECTION_WAIT
                               then FOLLOWER else state (?n\<lparr>state := ELECTION_WAIT\<rparr>)),
                     leader_id := Some (uint ([1, 5, 0, 0, 0, 0, 9 :: byte] ! 1)),
                     last_heartbeat_time := 7\<rparr>))"
    using short_or_unknown_frame_dropped
      [of "[1, 5, 0, 0, 0, 0, 9]" test_floats 7 "?n\<lparr>state := ELECTION_WAIT\<rparr>"] h5
    by blast
  then have r5: "on_message_received test_floats 7 [1, 5, 0, 0, 0, 0, 9]
        (?n\<lparr>state := ELECTION_WAIT\<rparr>)
      = Inr (?n\<lparr>state := FOLLOWER, leader_id := Some 5, last_heartbeat_time := 7\<rparr>)"
    by (simp add: init_def)
  from h1 h2 h3 h4 h5 r1 r2 r3 r4 r5 show ?thesis by blast
qed

section \<open>Leader arbitration\<close>

lemma length4E:
  assumes "length bs = 4"
  obtains a b c d where "bs = [a, b, c, d]"
proof -
  from assms obtain a bs1 where 1: "bs = a # bs1" "length bs1 = 3"
    by (cases bs) simp_all
  then obtain b bs2 where 2: "bs1 = b # bs2" "length bs2 = 2"
    by (cases bs1) simp_all
  then obtain c bs3 where 3: "bs2 = c # bs3" "length bs3 = 1"
    by (cases bs2) simp_all
  then obtain d where 4: "bs3 = [d]"
    by (cases bs3) simp_all
  from 1 2 3 4 that show thesis by simp
qed

lemma unpack_I_range:
  assumes "length bs = 4"
  shows "0 \<le> unpack_I bs \<and> unpack_I bs < 2 ^ 32"
proof -
  from assms obtain a b c d where bs: "bs = [a, b, c, d]"
    by (rule length4E)
  have "uint a < 256" "uint b < 256" "uint c < 256" "uint d < 256"
    "0 \<le> uint a" "0 \<le> uint b" "0 \<le> uint c" "0 \<le> uint d"
    using uint_bounded [of a] uint_bounded [of b] uint_bounded [of c] uint_bounded [of d]
    by simp_all
  then show ?thesis
    unfolding bs unpack_I_def by simp
qed

lemma pack_I_unpack_I:
  "length bs = 4 \<Longrightarrow> pack_I (unpack_I bs) = Inr (be32 (unpack_I bs))"
  using unpack_I_range [of bs] by (simp add: pack_I_def)

lemma struct_pack_IB_ok:
  "length bs = 4 \<Longrightarrow> 0 \<le> m \<Longrightarrow> m \<le> 255 \<Longrightarrow>
   struct_pack_IB (unpack_I bs) m = Inr (be32 (unpack_I bs) @ [word_of_int m])"
  by (simp add: struct_pack_IB_def pack_I_unpack_I pack_B_ok)

lemma wire_ok_task_claims [simp]: "wire_ok (s\<lparr>task_claims := x\<rparr>) = wire_ok s"
  by (simp add: wire_ok_def)

text \<open>
  C4. An inbound TASK_CLAIM with an 8-byte payload decoding to (task_id, U), from a
  sender id of one byte, at a node whose identity and tick fit the wire header and
  whose claim table holds one-byte winners. If the role is not Leader the state is
  unchanged and nothing is sent. If it is Leader: when there is no entry for task_id,
  or U is greater (the code's float comparison) than the incumbent utility plus 5.0
  (the code's float sum), the entry becomes (sender, U) and one
  TASK_CONFLICT(task_id, sender) is sent; otherwise, when the incumbent winner is not
  the sender, one TASK_CONFLICT(task_id, incumbent winner) is sent and the table is
  unchanged; otherwise nothing happens.
\<close>

theorem leader_arbitration:
  assumes "length payload = 8" and "wire_ok s" and "0 \<le> sender" and "sender \<le> 255"
    and "\<forall>k c. task_claims s k = Some c \<longrightarrow> 0 \<le> winner c \<and> winner c \<le> 255"
  shows "handle_task_claim fc sender payload s =
     (let task_id = unpack_I (take 4 payload);
          U = f32_unpack fc (drop 4 payload);
          conflict = (\<lambda>w. header_bytes TASK_CONFLICT (agent_id s) (tick s)
                           @ be32 task_id @ [word_of_int w])
      in if state s \<noteq> LEADER then Inr s
         else if task_claims s task_id = None
                 \<or> f_gt fc U (f_add fc (utility (the (task_claims s task_id))) (f_lit fc 5))
         then Inr (s\<lparr>task_claims := (task_claims s)(task_id \<mapsto> \<lparr>winner = sender, utility = U\<rparr>),
                     sent := sent s @ [conflict sender]\<rparr>)
         else if winner (the (task_claims s task_id)) \<noteq> sender
         then Inr (s\<lparr>sent := sent s @ [conflict (winner (the (task_claims s task_id)))]\<rparr>)
         else Inr s)"
proof -
  define tid where "tid = unpack_I (take 4 payload)"
  define U where "U = f32_unpack fc (drop 4 payload)"
  have l4: "length (take 4 payload) = 4" using assms(1) by simp
  have un: "struct_unpack_If fc payload = Inr (tid, U)"
    using assms(1) by (simp add: struct_unpack_If_def tid_def U_def)
  have pk: "struct_pack_IB tid m = Inr (be32 tid @ [word_of_int m])"
    if "0 \<le> m" "m \<le> 255" for m
    unfolding tid_def using l4 that by (rule struct_pack_IB_ok)
  have pks: "struct_pack_IB tid sender = Inr (be32 tid @ [word_of_int sender])"
    using assms(3,4) by (rule pk)
  show ?thesis
  proof (cases "state s = LEADER")
    case False
    then show ?thesis by (simp add: handle_task_claim_def un Let_def)
  next
    case True
    show ?thesis
    proof (cases "task_claims s tid")
      case None
      with True show ?thesis
        unfolding handle_task_claim_def un Let_def tid_def [symmetric] U_def [symmetric]
        by (simp add: pks send_msg_ok assms(2))
    next
      case (Some c)
      with assms(5) have "0 \<le> winner c" "winner c \<le> 255" by blast+
      then have pkc: "struct_pack_IB tid (winner c) = Inr (be32 tid @ [word_of_int (winner c)])"
        by (rule pk)
      from True Some show ?thesis
        unfolding handle_task_claim_def un Let_def tid_def [symmetric] U_def [symmetric]
        by (simp add: pks pkc send_msg_ok assms(2))
    qed
  qed
qed

theorem leader_arbitration_witness:
  "length [0, 0, 0, 101, 0x42, 0x50, 0, 0 :: byte] = 8 \<and> wire_ok leader_with_claim
   \<and> (0::int) \<le> 3 \<and> (3::int) \<le> 255
   \<and> task_claims leader_with_claim = [101 \<mapsto> \<lparr>winner = 2, utility = 50\<rparr>]
   \<and> handle_task_claim test_floats 3 [0, 0, 0, 101, 0x42, 0x50, 0, 0] leader_with_claim
      = Inr (leader_with_claim\<lparr>sent := [[5, 1, 0, 0, 0, 0, 0, 0, 0, 101, 2]]\<rparr>)
   \<and> handle_task_claim test_floats 3 [0, 0, 0, 101, 0x42, 0x5C, 0, 0] leader_with_claim
      = Inr (leader_with_claim\<lparr>sent := [[5, 1, 0, 0, 0, 0, 0, 0, 0, 101, 2]]\<rparr>)
   \<and> handle_task_claim test_floats 3 [0, 0, 0, 101, 0x42, 0x70, 0, 0] leader_with_claim
      = Inr (leader_with_claim\<lparr>
               task_claims := [101 \<mapsto> \<lparr>winner = 3, utility = 60\<rparr>],
               sent := [[5, 1, 0, 0, 0, 0, 0, 0, 0, 101, 3]]\<rparr>)"
proof -
  have h1: "length [0, 0, 0, 101, 0x42, 0x50, 0, 0 :: byte] = 8" by simp
  have h1b: "length [0, 0, 0, 101, 0x42, 0x5C, 0, 0 :: byte] = 8" by simp
  have h1c: "length [0, 0, 0, 101, 0x42, 0x70, 0, 0 :: byte] = 8" by simp
  have h2: "wire_ok leader_with_claim"
    by (simp add: leader_with_claim_def init_def wire_ok_def)
  have h3: "(0::int) \<le> 3" and h4: "(3::int) \<le> 255" by simp_all
  have h5: "\<forall>k c. task_claims leader_with_claim k = Some c \<longrightarrow> 0 \<le> winner c \<and> winner c \<le> 255"
    by (auto simp: leader_with_claim_def init_def split: if_splits)
  have f: "state leader_with_claim = LEADER" "agent_id leader_with_claim = 1"
    "tick leader_with_claim = 0" "sent leader_with_claim = []"
    "task_claims leader_with_claim 101 = Some \<lparr>winner = 2, utility = 50\<rparr>"
    by (simp_all add: leader_with_claim_def init_def)
  have m: "(task_claims leader_with_claim)(101 \<mapsto> \<lparr>winner = 3, utility = 60\<rparr>)
      = [101 \<mapsto> \<lparr>winner = 3, utility = 60\<rparr>]"
    by (simp add: leader_with_claim_def init_def)
  have tc: "task_claims leader_with_claim = [101 \<mapsto> \<lparr>winner = 2, utility = 50\<rparr>]"
    by (simp add: leader_with_claim_def init_def)
  have r1: "handle_task_claim test_floats 3 [0, 0, 0, 101, 0x42, 0x50, 0, 0] leader_with_claim
      = Inr (leader_with_claim\<lparr>sent := [[5, 1, 0, 0, 0, 0, 0, 0, 0, 101, 2]]\<rparr>)"
    unfolding leader_arbitration [OF h1 h2 h3 h4 h5, of test_floats]
    by (simp add: unpack_I_def test_floats_def f header_bytes_def be32_def)
  have r2: "handle_task_claim test_floats 3 [0, 0, 0, 101, 0x42, 0x5C, 0, 0] leader_with_claim
      = Inr (leader_with_claim\<lparr>sent := [[5, 1, 0, 0, 0, 0, 0, 0, 0, 101, 2]]\<rparr>)"
    unfolding leader_arbitration [OF h1b h2 h3 h4 h5, of test_floats]
    by (simp add: unpack_I_def test_floats_def f header_bytes_def be32_def)
  have r3: "handle_task_claim test_floats 3 [0, 0, 0, 101, 0x42, 0x70, 0, 0] leader_with_claim
      = Inr (leader_with_claim\<lparr>
               task_claims := [101 \<mapsto> \<lparr>winner = 3, utility = 60\<rparr>],
               sent := [[5, 1, 0, 0, 0, 0, 0, 0, 0, 101, 3]]\<rparr>)"
    unfolding leader_arbitration [OF h1c h2 h3 h4 h5, of test_floats]
    by (simp add: unpack_I_def test_floats_def f m header_bytes_def be32_def)
  from h1 h2 h3 h4 tc r1 r2 r3 show ?thesis by blast
qed

section \<open>The claim scan\<close>

lemma calculate_utility_frame [simp]:
  "calculate_utility fc (s\<lparr>tasks := x\<rparr>) t = calculate_utility fc s t"
  "calculate_utility fc (s\<lparr>sent := y\<rparr>) t = calculate_utility fc s t"
  by (simp_all add: calculate_utility_def split: sum.splits option.splits)

lemma claimed_frame [simp]:
  "claimed fc (s\<lparr>tasks := x\<rparr>) t = claimed fc s t"
  "claimed fc (s\<lparr>sent := y\<rparr>) t = claimed fc s t"
  by (simp_all add: claimed_def)

lemma computes_frame [simp]:
  "computes fc (s\<lparr>tasks := x\<rparr>) t = computes fc s t"
  "computes fc (s\<lparr>sent := y\<rparr>) t = computes fc s t"
  by (simp_all add: computes_def)

lemma mark_claimed_frame [simp]:
  "mark_claimed fc (s\<lparr>tasks := x\<rparr>) = mark_claimed fc s"
  "mark_claimed fc (s\<lparr>sent := y\<rparr>) = mark_claimed fc s"
  by (simp_all add: mark_claimed_def fun_eq_iff)

lemma claim_frame_frame [simp]:
  "claim_frame fc (s\<lparr>tasks := x\<rparr>) = claim_frame fc s"
  "claim_frame fc (s\<lparr>sent := y\<rparr>) = claim_frame fc s"
  by (simp_all add: claim_frame_def utility_bytes_def fun_eq_iff)

lemma wire_ok_tasks [simp]: "wire_ok (s\<lparr>tasks := x\<rparr>) = wire_ok s"
  by (simp add: wire_ok_def)

lemma set_status_absent: "k \<notin> fst ` set ts \<Longrightarrow> set_status k v ts = ts"
  by (induction ts) (auto simp: set_status_def)

lemma set_status_append:
  "set_status k v (xs @ ys) = set_status k v xs @ set_status k v ys"
  by (simp add: set_status_def)

lemma set_status_here:
  "k \<notin> fst ` set pre \<Longrightarrow> k \<notin> fst ` set rest \<Longrightarrow>
   set_status k v (pre @ (k, t) # rest) = pre @ (k, t\<lparr>status := v\<rparr>) # rest"
  using set_status_absent [of k pre v] set_status_absent [of k rest v]
  by (simp add: set_status_append) (simp add: set_status_def)

lemma struct_pack_If_ok:
  "0 \<le> k \<Longrightarrow> k < 2 ^ 32 \<Longrightarrow> f32_pack fc x = Inr b \<Longrightarrow>
   struct_pack_If fc k x = Inr (be32 k @ b)"
  by (simp add: struct_pack_If_def pack_I_def)

text \<open>A raise while the utility of an Open task is computed ends the scan there.\<close>

lemma process_tasks_loop_raises:
  "status t = ''OPEN'' \<Longrightarrow> calculate_utility fc s t = Inl e \<Longrightarrow>
   process_tasks_loop fc ((k, t) # rest) s = Inl (e, s)"
  by simp

lemma process_tasks_loop_spec:
  assumes "tasks s = pre @ rest" and "distinct (map fst (pre @ rest))" and "wire_ok s"
    and "\<forall>kt\<in>set rest. 0 \<le> fst kt \<and> fst kt < 2 ^ 32"
    and "\<forall>kt\<in>set rest. status (snd kt) = ''OPEN'' \<longrightarrow> computes fc s (snd kt)"
  shows "process_tasks_loop fc rest s =
     Inr (s\<lparr>tasks := pre @ map (mark_claimed fc s) rest,
             sent := sent s @ map (claim_frame fc s) (filter (\<lambda>kt. claimed fc s (snd kt)) rest)\<rparr>)"
  using assms
proof (induction rest arbitrary: s pre)
  case Nil
  then show ?case by simp
next
  case (Cons kt rest)
  obtain k t where kt: "kt = (k, t)" by (cases kt)
  from Cons.prems(2) have notin: "k \<notin> fst ` set pre" "k \<notin> fst ` set rest"
    by (auto simp: kt)
  from Cons.prems(4) have rng: "0 \<le> k" "k < 2 ^ 32" by (auto simp: kt)
  show ?case
  proof (cases "claimed fc s t")
    case False
    have skip: "process_tasks_loop fc (kt # rest) s = process_tasks_loop fc rest s"
    proof (cases "status t = ''OPEN''")
      case True
      with Cons.prems(5) have "computes fc s t" by (simp add: kt)
      then obtain u where u: "calculate_utility fc s t = Inr u"
        by (auto simp: computes_def split: sum.splits)
      with False True have "\<not> f_gt fc u (f_lit fc 20)" by (simp add: claimed_def)
      with True u show ?thesis by (simp add: kt)
    next
      case False
      then show ?thesis by (simp add: kt)
    qed
    have "process_tasks_loop fc rest s =
        Inr (s\<lparr>tasks := (pre @ [kt]) @ map (mark_claimed fc s) rest,
             sent := sent s @ map (claim_frame fc s)
                                 (filter (\<lambda>kt. claimed fc s (snd kt)) rest)\<rparr>)"
      using Cons.prems by (intro Cons.IH) simp_all
    with skip show ?thesis using False by (simp add: kt mark_claimed_def)
  next
    case True
    then have op: "status t = ''OPEN''" by (simp add: claimed_def)
    with Cons.prems(5) have cm: "computes fc s t" by (simp add: kt)
    from True obtain u where u: "calculate_utility fc s t = Inr u" "f_gt fc u (f_lit fc 20)"
      by (auto simp: claimed_def split: sum.splits)
    with cm obtain b where b: "f32_pack fc u = Inr b"
      by (auto simp: computes_def split: sum.splits)
    let ?t' = "t\<lparr>status := ''TENTATIVE''\<rparr>"
    let ?s1 = "s\<lparr>tasks := pre @ (k, ?t') # rest\<rparr>"
    let ?s2 = "?s1\<lparr>sent := sent s @ [claim_frame fc s (k, t)]\<rparr>"
    have st: "set_status k ''TENTATIVE'' (tasks s) = pre @ (k, ?t') # rest"
      using notin by (simp add: Cons.prems(1) kt set_status_here)
    have fr: "claim_frame fc s (k, t) = header_bytes TASK_CLAIM (agent_id s) (tick s) @ be32 k @ b"
      by (simp add: claim_frame_def utility_bytes_def u b)
    have snd: "send_msg TASK_CLAIM (be32 k @ b) ?s1 = Inr ?s2"
      using Cons.prems(3) by (simp add: send_msg_ok fr)
    have pk: "struct_pack_If fc k u = Inr (be32 k @ b)"
      using rng b by (rule struct_pack_If_ok)
    have step: "process_tasks_loop fc (kt # rest) s = process_tasks_loop fc rest ?s2"
      using op u by (simp add: kt Let_def st pk snd)
    have ih: "process_tasks_loop fc rest ?s2 =
       Inr (?s2\<lparr>tasks := (pre @ [(k, ?t')]) @ map (mark_claimed fc ?s2) rest,
             sent := sent ?s2 @ map (claim_frame fc ?s2)
                                   (filter (\<lambda>kt. claimed fc ?s2 (snd kt)) rest)\<rparr>)"
      using Cons.prems by (intro Cons.IH) (simp_all add: kt)
    show ?thesis
      unfolding step ih using True by (simp add: kt mark_claimed_def)
  qed
qed

text \<open>
  C8, as stated, fails on a task map with a task so far away that the square in the
  distance raises \<^verbatim>\<open>OverflowError\<close>: the scan ends there, and the task behind it,
  Open with utility 50, is neither marked nor announced.
\<close>

theorem claim_scan_counterexample:
  "tasks far_scan_node = [(100, extinguisher_task (2 ^ 600, 0)), (101, extinguisher_task (1, 0))]
   \<and> status (extinguisher_task (1, 0)) = ''OPEN''
   \<and> calculate_utility test_floats far_scan_node (extinguisher_task (1, 0)) = Inr 50
   \<and> f_gt test_floats 50 (f_lit test_floats 20)
   \<and> process_tasks test_floats far_scan_node = Inl (OverflowError, far_scan_node)"
proof -
  have ts: "tasks far_scan_node
      = [(100, extinguisher_task (2 ^ 600, 0)), (101, extinguisher_task (1, 0))]"
    by (simp add: far_scan_node_def init_def)
  have st: "status (extinguisher_task p) = ''OPEN''" for p
    by (simp add: extinguisher_task_def)
  have big: "\<bar>0 - (2::real) ^ 600\<bar> \<ge> 2 ^ 512"
    by simp
  have u0: "calculate_utility test_floats far_scan_node (extinguisher_task (2 ^ 600, 0))
      = Inl OverflowError"
    using big
    by (simp add: calculate_utility_def far_scan_node_def init_def extinguisher_task_def
        test_floats_def)
  have u1: "calculate_utility test_floats far_scan_node (extinguisher_task (1, 0)) = Inr 50"
    by (simp add: calculate_utility_def far_scan_node_def init_def extinguisher_task_def
        test_floats_def)
  have g: "f_gt test_floats 50 (f_lit test_floats 20)"
    by (simp add: test_floats_def)
  have r: "process_tasks test_floats far_scan_node = Inl (OverflowError, far_scan_node)"
    unfolding process_tasks_def ts by (rule process_tasks_loop_raises [OF st u0])
  from ts st u1 g r show ?thesis by blast
qed

text \<open>
  C8, amended. For every task map (a dictionary: distinct keys) whose task ids are unsigned
  32-bit values, at a node whose identity and tick fit the wire header, and for which
  the utility of every Open task is computed without a raise and fits a 32-bit float
  when the task is claimed: the claim scan returns; an entry whose status is Open and
  whose computed utility is greater (the code's float comparison) than 20.0 has its
  status set to Tentative and one TASK_CLAIM frame carrying (task_id as u32, utility as
  f32) is sent for it, in the order of the map; every other entry (status not Open, or
  utility not greater than 20.0) is unchanged and nothing is sent for it.
\<close>

theorem claim_scan:
  assumes "distinct (map fst (tasks s))" and "wire_ok s"
    and "\<forall>kt\<in>set (tasks s). 0 \<le> fst kt \<and> fst kt < 2 ^ 32"
    and "\<forall>kt\<in>set (tasks s). status (snd kt) = ''OPEN'' \<longrightarrow> computes fc s (snd kt)"
  shows "process_tasks fc s =
     Inr (s\<lparr>tasks := map (mark_claimed fc s) (tasks s),
             sent := sent s @ map (claim_frame fc s)
                                 (filter (\<lambda>kt. claimed fc s (snd kt)) (tasks s))\<rparr>)"
  using process_tasks_loop_spec [of s "[]" "tasks s" fc] assms
  by (simp add: process_tasks_def)

lemma sqrt_16: "sqrt 16 = 4"
  by (rule real_sqrt_unique) simp_all

theorem claim_scan_witness:
  "distinct (map fst (tasks scan_node)) \<and> wire_ok scan_node
   \<and> map fst (tasks scan_node) = [101, 103]
   \<and> calculate_utility test_floats scan_node (extinguisher_task (1, 0)) = Inr 50
   \<and> calculate_utility test_floats scan_node (extinguisher_task (4, 0)) = Inr 20
   \<and> process_tasks test_floats scan_node =
       Inr (scan_node
             \<lparr>tasks := [(101, (extinguisher_task (1, 0))\<lparr>status := ''TENTATIVE''\<rparr>),
                        (103, extinguisher_task (4, 0))],
              sent := [[4, 1, 0, 0, 0, 0, 0, 0, 0, 101, 0x42, 0x48, 0, 0]]\<rparr>)"
proof -
  have ts: "tasks scan_node = [(101, extinguisher_task (1, 0)), (103, extinguisher_task (4, 0))]"
    and f: "agent_id scan_node = 1" "tick scan_node = 0" "sent scan_node = []"
    by (simp_all add: scan_node_def init_def)
  have h1: "distinct (map fst (tasks scan_node))" by (simp add: ts)
  have h2: "wire_ok scan_node" by (simp add: wire_ok_def f)
  have h3: "\<forall>kt\<in>set (tasks scan_node). 0 \<le> fst kt \<and> fst kt < 2 ^ 32" by (simp add: ts)
  have u1: "calculate_utility test_floats scan_node (extinguisher_task (1, 0)) = Inr 50"
    by (simp add: calculate_utility_def scan_node_def init_def extinguisher_task_def
        test_floats_def)
  have u2: "calculate_utility test_floats scan_node (extinguisher_task (4, 0)) = Inr 20"
    by (simp add: calculate_utility_def scan_node_def init_def extinguisher_task_def
        test_floats_def sqrt_16)
  have g: "f_gt test_floats 50 (f_lit test_floats 20)"
    "\<not> f_gt test_floats 20 (f_lit test_floats 20)"
    "f32_pack test_floats 50 = Inr [0x42, 0x48, 0, 0]"
    by (simp_all add: test_floats_def)
  have st: "status (extinguisher_task p) = ''OPEN''" for p
    by (simp add: extinguisher_task_def)
  have c1: "claimed test_floats scan_node (extinguisher_task (1, 0))"
    by (simp add: claimed_def u1 g st)
  have c2: "\<not> claimed test_floats scan_node (extinguisher_task (4, 0))"
    by (simp add: claimed_def u2 g)
  have h4: "\<forall>kt\<in>set (tasks scan_node).
      status (snd kt) = ''OPEN'' \<longrightarrow> computes test_floats scan_node (snd kt)"
    by (simp add: ts computes_def u1 u2 g)
  have ks: "map fst (tasks scan_node) = [101, 103]" by (simp add: ts)
  have r: "process_tasks test_floats scan_node =
       Inr (scan_node
             \<lparr>tasks := [(101, (extinguisher_task (1, 0))\<lparr>status := ''TENTATIVE''\<rparr>),
                        (103, extinguisher_task (4, 0))],
              sent := [[4, 1, 0, 0, 0, 0, 0, 0, 0, 101, 0x42, 0x48, 0, 0]]\<rparr>)"
    unfolding claim_scan [OF h1 h2 h3 h4]
    by (simp add: ts f mark_claimed_def claim_frame_def utility_bytes_def c1 c2 u1 g
        header_bytes_def be32_def)
  from h1 h2 ks u1 u2 r show ?thesis by blast
qed

section \<open>The motion step\<close>

lemma sqrt_25: "sqrt 25 = 5"
  by (rule real_sqrt_unique) simp_all

text \<open>
  C9. A node at the origin with target (3, 4) and a neighbour reported at the origin:
  the distance to the neighbour is clamped to 0.001, the direction is divided by the
  unclamped norm 0, and the step raises \<^verbatim>\<open>ZeroDivisionError\<close>. No velocity is stored
  and the position is not advanced.
\<close>

theorem motion_step_neighbour_at_position:
  "position crowded_node = (0, 0) \<and> neighbors crowded_node = [(2, 0, 0)]
   \<and> target crowded_node = Some (3, 4)
   \<and> update_physics test_floats 0.1 crowded_node = Inl (ZeroDivisionError, crowded_node)"
proof -
  have f: "position crowded_node = (0, 0)" "neighbors crowded_node = [(2, 0, 0)]"
    "target crowded_node = Some (3, 4)" "obstacles crowded_node = []"
    "leader_pos crowded_node = None"
    by (simp_all add: crowded_node_def init_def test_floats_def)
  have ft: "formation_target test_floats crowded_node = Inr crowded_node"
    by (simp add: formation_target_def f)
  have att: "attractive_force test_floats (0, 0) (3, 4) = Inr (3, 4)"
    by (simp add: attractive_force_def root_sum_squares_def bind_e_def test_floats_def sqrt_25)
  have nb: "neighbor_step test_floats (0, 0) (2, 0, 0) (f_lit test_floats 0, f_lit test_floats 0)
      = Inl ZeroDivisionError"
    by (simp add: neighbor_step_def root_sum_squares_def bind_e_def test_floats_def)
  have tf: "total_force test_floats crowded_node (3, 4) = Inl ZeroDivisionError"
    by (simp add: total_force_def f att nb bind_e_def)
  have "update_physics test_floats 0.1 crowded_node = Inl (ZeroDivisionError, crowded_node)"
    by (simp add: update_physics_def ft f tf)
  with f show ?thesis by simp
qed

end
